theory Spec2Isabelle
  imports Complex_Main
begin

section \<open>Values, strings and exceptions\<close>

text \<open>
  The development embeds \<^verbatim>\<open>mycachelib.py\<close>: the key derivation
  \<^verbatim>\<open>make_cache_key\<close>, the method \<^verbatim>\<open>CachedAsyncSession.execute\<close>, the method
  \<^verbatim>\<open>CachedAsyncSession.clear_cache\<close> and the listener installed by
  \<^verbatim>\<open>register_simple_invalidation\<close>.

  A Python \<^verbatim>\<open>str\<close> is a \<open>string\<close> whose characters stand for the code points
  below 256. A value of type \<open>exn\<close> is a raised instance of the Python class
  \<^verbatim>\<open>Exception\<close>, named by its class: this is what \<^verbatim>\<open>except Exception\<close> and
  \<^verbatim>\<open>contextlib.suppress(Exception)\<close> catch. A computation that may raise has a
  result of type \<open>exn + 'a\<close>, with \<open>Inl\<close> for the exception.
\<close>

datatype exn = Exception string

type_synonym bytes = "char list"

text \<open>The bind values of a query and the column values of a row.\<close>

datatype pyval = PNone | PBool bool | PInt int | PStr string

text \<open>
  A Python \<^verbatim>\<open>dict\<close> with string keys, as the list of its items in insertion order
  (the order in which \<^verbatim>\<open>repr\<close> and iteration visit them). Two dicts are equal in
  Python when they hold the same items, in whatever order: \<open>dict_eq\<close>.
\<close>

type_synonym pydict = "(string \<times> pyval) list"

definition dict_eq :: "pydict \<Rightarrow> pydict \<Rightarrow> bool" where
  "dict_eq d e = (distinct (map fst d) \<and> distinct (map fst e) \<and> set d = set e)"

subsection \<open>\<^verbatim>\<open>str.strip\<close>, \<^verbatim>\<open>str.lower\<close>, \<^verbatim>\<open>str.startswith\<close>\<close>

definition isspace :: "char \<Rightarrow> bool" where
  "isspace c = (let n = (of_char c :: nat) in
     (9 \<le> n \<and> n \<le> 13) \<or> (28 \<le> n \<and> n \<le> 32) \<or> n = 133 \<or> n = 160)"

definition strip :: "string \<Rightarrow> string" where
  "strip s = rev (dropWhile isspace (rev (dropWhile isspace s)))"

definition lower_char :: "char \<Rightarrow> char" where
  "lower_char c = (let n = (of_char c :: nat) in
     if (65 \<le> n \<and> n \<le> 90) \<or> (192 \<le> n \<and> n \<le> 222 \<and> n \<noteq> 215)
     then char_of (n + 32) else c)"

definition lower :: "string \<Rightarrow> string" where
  "lower s = map lower_char s"

definition startswith :: "string \<Rightarrow> string \<Rightarrow> bool" where
  "startswith s p = (take (length p) s = p)"

text \<open>\<^verbatim>\<open>s.startswith((p1, p2, ...))\<close>: some element of the tuple is a prefix.\<close>

definition startswith_any :: "string \<Rightarrow> string list \<Rightarrow> bool" where
  "startswith_any s ps = list_ex (startswith s) ps"

subsection \<open>\<^verbatim>\<open>repr\<close> of the values and of a dict\<close>

definition digit_char :: "nat \<Rightarrow> char" where
  "digit_char d = char_of (48 + d)"

function nat_repr :: "nat \<Rightarrow> string" where
  "nat_repr n = (if n < 10 then [digit_char n] else nat_repr (n div 10) @ [digit_char (n mod 10)])"
  by pat_completeness auto
termination
  by (relation "measure id") auto

definition int_repr :: "int \<Rightarrow> string" where
  "int_repr i = (if i < 0 then CHR ''-'' # nat_repr (nat (- i)) else nat_repr (nat i))"

definition hex_char :: "nat \<Rightarrow> char" where
  "hex_char d = (if d < 10 then char_of (48 + d) else char_of (87 + d))"

text \<open>
  \<^verbatim>\<open>repr\<close> of a \<^verbatim>\<open>str\<close>: single quotes, unless the string holds a single quote and
  no double quote; the quote and the backslash are escaped, tab, newline and carriage
  return are written \<^verbatim>\<open>\t\<close>, \<^verbatim>\<open>\n\<close>, \<^verbatim>\<open>\r\<close>, and every other non-printable
  character \<^verbatim>\<open>\xhh\<close>.
\<close>

definition printable :: "char \<Rightarrow> bool" where
  "printable c = (let n = (of_char c :: nat) in
     (32 \<le> n \<and> n < 127) \<or> (160 < n \<and> n \<noteq> 173))"

definition escape_char :: "char \<Rightarrow> char \<Rightarrow> string" where
  "escape_char q c = (let n = (of_char c :: nat) in
     if c = q \<or> c = CHR 0x5C then [CHR 0x5C, c]
     else if n = 9 then [CHR 0x5C, CHR ''t'']
     else if n = 10 then [CHR 0x5C, CHR ''n'']
     else if n = 13 then [CHR 0x5C, CHR ''r'']
     else if printable c then [c]
     else [CHR 0x5C, CHR ''x'', hex_char (n div 16), hex_char (n mod 16)])"

definition str_repr :: "string \<Rightarrow> string" where
  "str_repr s = (let q = (if CHR 0x27 \<in> set s \<and> CHR 0x22 \<notin> set s
                          then CHR 0x22 else CHR 0x27)
                 in q # concat (map (escape_char q) s) @ [q])"

fun repr :: "pyval \<Rightarrow> string" where
  "repr PNone = ''None''"
| "repr (PBool b) = (if b then ''True'' else ''False'')"
| "repr (PInt i) = int_repr i"
| "repr (PStr s) = str_repr s"

text \<open>\<^verbatim>\<open>sep.join(xs)\<close>.\<close>

fun join :: "string \<Rightarrow> string list \<Rightarrow> string" where
  "join sep [] = []"
| "join sep [x] = x"
| "join sep (x # y # ys) = x @ sep @ join sep (y # ys)"

definition repr_item :: "string \<times> pyval \<Rightarrow> string" where
  "repr_item kv = str_repr (fst kv) @ '': '' @ repr (snd kv)"

text \<open>\<^verbatim>\<open>repr\<close> of a dict writes the items in insertion order.\<close>

definition repr_dict :: "pydict \<Rightarrow> string" where
  "repr_dict d = ''{'' @ join '', '' (map repr_item d) @ ''}''"

section \<open>The statement and the key derivation\<close>

text \<open>
  What the code reads of a statement: whether it is an instance of \<^verbatim>\<open>Select\<close>, and
  what \<^verbatim>\<open>str(statement)\<close> returns or raises.
\<close>

record statement =
  is_Select :: bool
  text_of :: "exn + string"

text \<open>
  \<^verbatim>\<open>make_cache_key(statement, params, prefix)\<close>. The hash
  \<^verbatim>\<open>hashlib.sha256(raw.encode("utf-8")).hexdigest()\<close> is the parameter \<open>sha256\<close>;
  \<open>key_raw\<close> is the string \<^verbatim>\<open>raw\<close> that is hashed.
\<close>

definition key_raw :: "string \<Rightarrow> pydict \<Rightarrow> string" where
  "key_raw sql_text params = sql_text @ ''|'' @ repr_dict params"

definition make_cache_key ::
  "(string \<Rightarrow> string) \<Rightarrow> statement \<Rightarrow> pydict \<Rightarrow> string \<Rightarrow> exn + string" where
  "make_cache_key sha256 stmt params prefix =
     (case text_of stmt of
        Inl e \<Rightarrow> Inl e
      | Inr sql_text \<Rightarrow> Inr (prefix @ '':'' @ sha256 (key_raw sql_text params)))"

section \<open>Store results and their materialization\<close>

text \<open>
  An element of \<^verbatim>\<open>result.scalars().all()\<close>. \<open>Mapped r\<close> is an ORM instance (it has
  the attribute \<^verbatim>\<open>__mapper__\<close>); \<open>r\<close> is what the dict comprehension over
  \<^verbatim>\<open>sa_inspect(obj).mapper.column_attrs\<close> yields for it, or the exception raised on
  the way. \<open>Plain v\<close> is a value without a mapper, on which \<^verbatim>\<open>sa_inspect\<close> raises.
\<close>

datatype obj = Mapped "exn + pydict" | Plain pyval

text \<open>
  What the code reads of the result of the store: \<^verbatim>\<open>result.scalars().all()\<close> and
  \<^verbatim>\<open>[dict(r) for r in result.mappings().all()]\<close>, each a list or an exception.
\<close>

record raw_result =
  scalars_all :: "exn + obj list"
  mappings_all :: "exn + pydict list"

text \<open>An element of the payload: a flat record, or a scalar as the store returned it.\<close>

datatype item = Row pydict | Scalar obj

type_synonym payload = "item list"

definition has_mapper :: "obj \<Rightarrow> bool" where
  "has_mapper ob = (case ob of Mapped _ \<Rightarrow> True | Plain _ \<Rightarrow> False)"

definition column_dict :: "obj \<Rightarrow> exn + pydict" where
  "column_dict ob = (case ob of Mapped r \<Rightarrow> r
                     | Plain _ \<Rightarrow> Inl (Exception ''NoInspectionAvailable''))"

text \<open>The list comprehension over \<^verbatim>\<open>scalars_list\<close>: the first exception ends it.\<close>

fun column_dicts :: "obj list \<Rightarrow> exn + pydict list" where
  "column_dicts [] = Inr []"
| "column_dicts (ob # obs) =
     (case column_dict ob of
        Inl e \<Rightarrow> Inl e
      | Inr d \<Rightarrow> (case column_dicts obs of Inl e \<Rightarrow> Inl e | Inr ds \<Rightarrow> Inr (d # ds)))"

text \<open>
  The two places that read the mappings (after an empty scalar list, and after a failure
  of the scalars): \<^verbatim>\<open>try: rows = ...; payload = [dict(r) for r in rows]\<close>
  \<^verbatim>\<open>except Exception: payload = []\<close>.
\<close>

definition from_mappings :: "raw_result \<Rightarrow> payload" where
  "from_mappings res = (case mappings_all res of Inl _ \<Rightarrow> [] | Inr rows \<Rightarrow> map Row rows)"

text \<open>Lines 91 to 120 of \<^verbatim>\<open>execute\<close>: the payload built from the result of the store.\<close>

definition materialize :: "raw_result \<Rightarrow> payload" where
  "materialize res =
     (case scalars_all res of
        Inl _ \<Rightarrow> from_mappings res
      | Inr scalars_list \<Rightarrow>
          (case scalars_list of
             [] \<Rightarrow> from_mappings res
           | first # _ \<Rightarrow>
               if has_mapper first
               then (case column_dicts scalars_list of Inl _ \<Rightarrow> [] | Inr ds \<Rightarrow> map Row ds)
               else map Scalar scalars_list))"

section \<open>The session and its environment\<close>

text \<open>
  The fields of \<^verbatim>\<open>CachedAsyncSession\<close> set by \<^verbatim>\<open>__init__\<close>. The local tier maps a
  key to a payload and its expiry time. Times are real numbers: \<^verbatim>\<open>time.time()\<close>
  and \<^verbatim>\<open>float(self._ttl)\<close> are read without the rounding of floating point.
\<close>

record session =
  cache_prefix :: string
  ttl :: int
  last_from_cache :: "bool option"
  local_cache :: "string \<rightharpoonup> payload \<times> real"

definition init_session :: "string \<Rightarrow> int \<Rightarrow> session" where
  "init_session prefix default_ttl =
     \<lparr>cache_prefix = prefix, ttl = default_ttl, last_from_cache = None,
      local_cache = Map.empty\<rparr>"

text \<open>
  The library functions the session calls: the hash of \<open>make_cache_key\<close>,
  \<^verbatim>\<open>pickle.dumps\<close> and \<^verbatim>\<open>pickle.loads\<close>.
\<close>

record lib =
  sha256 :: "string \<Rightarrow> string"
  pickle_dumps :: "payload \<Rightarrow> exn + bytes"
  pickle_loads :: "bytes \<Rightarrow> exn + payload"

text \<open>
  What the outside world answers during one call of \<^verbatim>\<open>execute\<close>; each of these is
  asked at most once in a call. \<open>redis_get\<close> is the answer of
  \<^verbatim>\<open>self._redis.get(cache_key)\<close> (\<open>None\<close> for an absent key), \<open>time_lookup\<close> the
  clock read at the local lookup, \<open>db_execute\<close> the answer of
  \<^verbatim>\<open>super().execute(statement, params=params)\<close>, \<open>redis_set\<close> the answer of
  \<^verbatim>\<open>self._redis.set(cache_key, ..., ex=self._ttl)\<close>, and \<open>time_store\<close> the clock
  read when the local entry is written.
\<close>

record env =
  redis_get :: "exn + bytes option"
  time_lookup :: real
  db_execute :: "exn + raw_result"
  redis_set :: "exn + unit"
  time_store :: real

text \<open>The calls made to the remote tier and to the store, in the order they are made.\<close>

datatype event =
    RedisGet string
  | RedisSet string bytes int
  | RedisKeys string
  | RedisDelete "string list"
  | DbExecute statement pydict

text \<open>
  What \<^verbatim>\<open>execute\<close> returns: the result of the store itself, or a payload. The
  keyword arguments, which \<^verbatim>\<open>execute\<close> hands on to the store untouched, and the
  lines it prints are left out.
\<close>

datatype result = Native raw_result | Payload payload

section \<open>\<^verbatim>\<open>CachedAsyncSession.execute\<close>\<close>

text \<open>\<^verbatim>\<open>params = params or {}\<close>: \<^verbatim>\<open>None\<close> and the empty dict both give the empty dict.\<close>

definition params_or_empty :: "pydict option \<Rightarrow> pydict" where
  "params_or_empty params = (case params of None \<Rightarrow> [] | Some d \<Rightarrow> d)"

text \<open>
  Lines 52 to 57: a \<^verbatim>\<open>Select\<close> instance, or a statement whose text, stripped and
  lowercased, starts with \<^verbatim>\<open>select\<close>; an exception of \<^verbatim>\<open>str(statement)\<close> is
  suppressed there.
\<close>

definition is_select :: "statement \<Rightarrow> bool" where
  "is_select stmt =
     (is_Select stmt \<or>
      (case text_of stmt of
         Inl _ \<Rightarrow> False
       | Inr t \<Rightarrow> startswith (lower (strip t)) ''select''))"

text \<open>
  Lines 66 to 70: an exception of the remote \<^verbatim>\<open>get\<close> gives \<^verbatim>\<open>cached = None\<close>,
  and \<^verbatim>\<open>if cached:\<close> takes a non-empty byte string only.
\<close>

definition remote_lookup :: "env \<Rightarrow> bytes option" where
  "remote_lookup E =
     (case redis_get E of
        Inl _ \<Rightarrow> None
      | Inr None \<Rightarrow> None
      | Inr (Some b) \<Rightarrow> if b = [] then None else Some b)"

text \<open>
  Lines 122 to 124: \<^verbatim>\<open>pickle.dumps\<close> and the remote \<^verbatim>\<open>set\<close> run inside
  \<^verbatim>\<open>contextlib.suppress(Exception)\<close>; the \<^verbatim>\<open>set\<close> is called when the payload could
  be serialized. The value is the list of calls made.
\<close>

definition remote_store :: "lib \<Rightarrow> session \<Rightarrow> string \<Rightarrow> payload \<Rightarrow> event list" where
  "remote_store L s key p =
     (case pickle_dumps L p of
        Inl _ \<Rightarrow> []
      | Inr b \<Rightarrow> [RedisSet key b (ttl s)])"

text \<open>
  Lines 86 to 128: the store is asked; its exception propagates; otherwise the session is
  marked as served by the store, the payload is built, offered to the remote tier, written
  to the local tier and returned. The list of calls starts with the remote \<^verbatim>\<open>get\<close>
  that \<^verbatim>\<open>execute\<close> has made before it comes here.
\<close>

definition hit_database ::
  "lib \<Rightarrow> env \<Rightarrow> session \<Rightarrow> statement \<Rightarrow> pydict \<Rightarrow> string
     \<Rightarrow> (exn + result) \<times> session \<times> event list" where
  "hit_database L E s stmt params key =
     (case db_execute E of
        Inl e \<Rightarrow> (Inl e, s, [RedisGet key, DbExecute stmt params])
      | Inr res \<Rightarrow>
          (let p = materialize res in
           (Inr (Payload p),
            s\<lparr>last_from_cache := Some False,
              local_cache := (local_cache s)(key \<mapsto> (p, time_store E + real_of_int (ttl s)))\<rparr>,
            [RedisGet key, DbExecute stmt params] @ remote_store L s key p)))"

definition execute ::
  "lib \<Rightarrow> env \<Rightarrow> session \<Rightarrow> statement \<Rightarrow> pydict option
     \<Rightarrow> (exn + result) \<times> session \<times> event list" where
  "execute L E s stmt params0 =
     (let params = params_or_empty params0 in
      if \<not> is_select stmt
      then (case db_execute E of
              Inl e \<Rightarrow> (Inl e, s, [DbExecute stmt params])
            | Inr res \<Rightarrow> (Inr (Native res), s, [DbExecute stmt params]))
      else
        (case make_cache_key (sha256 L) stmt params (cache_prefix s) of
           Inl e \<Rightarrow> (Inl e, s, [])
         | Inr key \<Rightarrow>
             (case remote_lookup E of
                Some cached \<Rightarrow>
                  (case pickle_loads L cached of
                     Inl e \<Rightarrow> (Inl e, s\<lparr>last_from_cache := Some True\<rparr>, [RedisGet key])
                   | Inr p \<Rightarrow> (Inr (Payload p), s\<lparr>last_from_cache := Some True\<rparr>, [RedisGet key]))
              | None \<Rightarrow>
                  (case local_cache s key of
                     None \<Rightarrow> hit_database L E s stmt params key
                   | Some (p, expiry) \<Rightarrow>
                       if expiry > time_lookup E
                       then (Inr (Payload p), s\<lparr>last_from_cache := Some True\<rparr>, [RedisGet key])
                       else hit_database L E
                              (s\<lparr>local_cache := (local_cache s)(key := None)\<rparr>)
                              stmt params key))))"

section \<open>\<^verbatim>\<open>clear_cache\<close> and the invalidation listener\<close>

text \<open>
  The body shared by \<^verbatim>\<open>CachedAsyncSession.clear_cache\<close> and by the coroutine
  \<^verbatim>\<open>_clear_cache\<close> of \<^verbatim>\<open>register_simple_invalidation\<close>: the keys matching
  \<^verbatim>\<open>prefix:*\<close> are asked for and, when there are some, deleted. \<open>keys_answer\<close> and
  \<open>delete_answer\<close> are what the remote tier answers; nothing is caught.
\<close>

definition clear_keys ::
  "string \<Rightarrow> exn + string list \<Rightarrow> exn + nat \<Rightarrow> (exn + unit) \<times> event list" where
  "clear_keys prefix keys_answer delete_answer =
     (case keys_answer of
        Inl e \<Rightarrow> (Inl e, [RedisKeys (prefix @ '':*'')])
      | Inr keys \<Rightarrow>
          if keys \<noteq> []
          then (case delete_answer of
                  Inl e \<Rightarrow> (Inl e, [RedisKeys (prefix @ '':*''), RedisDelete keys])
                | Inr _ \<Rightarrow> (Inr (), [RedisKeys (prefix @ '':*''), RedisDelete keys]))
          else (Inr (), [RedisKeys (prefix @ '':*'')]))"

definition clear_cache ::
  "session \<Rightarrow> exn + string list \<Rightarrow> exn + nat \<Rightarrow> (exn + unit) \<times> session \<times> event list" where
  "clear_cache s keys_answer delete_answer =
     (case clear_keys (cache_prefix s) keys_answer delete_answer of
        (r, evs) \<Rightarrow> (r, s, evs))"

text \<open>
  A task handed to the event loop by \<^verbatim>\<open>loop.create_task\<close>: the coroutine
  \<^verbatim>\<open>_clear_cache()\<close> of the listener registered for this prefix. The loop runs it
  later, with \<open>run_task\<close>; its exception stays in the task.
\<close>

datatype task = ClearCacheTask string

definition run_task :: "task \<Rightarrow> exn + string list \<Rightarrow> exn + nat \<Rightarrow> (exn + unit) \<times> event list" where
  "run_task t keys_answer delete_answer =
     (case t of ClearCacheTask prefix \<Rightarrow> clear_keys prefix keys_answer delete_answer)"

text \<open>
  The body of \<^verbatim>\<open>_after_execute\<close> under its \<^verbatim>\<open>contextlib.suppress\<close>: the tasks it
  creates, or the exception raised by \<^verbatim>\<open>str(clauseelement)\<close> or by
  \<^verbatim>\<open>asyncio.get_running_loop()\<close> (\<open>loop_running\<close> tells whether a loop is running
  in the thread).
\<close>

definition after_execute_body :: "string \<Rightarrow> bool \<Rightarrow> statement \<Rightarrow> exn + task list" where
  "after_execute_body prefix loop_running clauseelement =
     (case text_of clauseelement of
        Inl e \<Rightarrow> Inl e
      | Inr t \<Rightarrow>
          if startswith_any (lower (strip t)) [''insert'', ''update'', ''delete'']
          then (if loop_running then Inr [ClearCacheTask prefix]
                else Inl (Exception ''RuntimeError''))
          else Inr [])"

text \<open>
  \<^verbatim>\<open>_after_execute\<close>: what the hook returns to the engine that ran the statement, the
  tasks it has put on the loop, and the calls it made itself to the remote tier.
\<close>

definition after_execute ::
  "string \<Rightarrow> bool \<Rightarrow> statement \<Rightarrow> (exn + unit) \<times> task list \<times> event list" where
  "after_execute prefix loop_running clauseelement =
     (case after_execute_body prefix loop_running clauseelement of
        Inl _ \<Rightarrow> (Inr (), [], [])
      | Inr tasks \<Rightarrow> (Inr (), tasks, []))"

section \<open>Sample inputs\<close>

text \<open>
  The inputs at which the theorems below are instantiated: the demo query of
  \<^verbatim>\<open>main.py\<close> over one active user, a write, a session as \<^verbatim>\<open>main.py\<close> configures it,
  and environments in which the remote tier fails, misses and hits. \<open>sample_lib\<close> hashes
  with the identity and serializes the one payload of the samples.
\<close>

definition sample_row :: pydict where
  "sample_row = [(''id'', PInt 1), (''username'', PStr ''alice''), (''is_active'', PBool True)]"

definition sample_payload :: payload where
  "sample_payload = [Row sample_row]"

definition sample_result :: raw_result where
  "sample_result = \<lparr>scalars_all = Inr [Mapped (Inr sample_row)], mappings_all = Inr []\<rparr>"

definition sample_lib :: lib where
  "sample_lib =
     \<lparr>sha256 = (\<lambda>raw. raw),
      pickle_dumps = (\<lambda>p. if p = sample_payload then Inr ''pickled''
                            else Inl (Exception ''PicklingError'')),
      pickle_loads = (\<lambda>b. if b = ''pickled'' then Inr sample_payload
                            else Inl (Exception ''UnpicklingError''))\<rparr>"

definition select_users :: statement where
  "select_users = \<lparr>is_Select = True, text_of = Inr ''SELECT users.id FROM users''\<rparr>"

definition update_users :: statement where
  "update_users = \<lparr>is_Select = False, text_of = Inr '' Update users SET is_active = 0''\<rparr>"

definition sample_key :: string where
  "sample_key = ''sqlcache:SELECT users.id FROM users|{}''"

definition sample_session :: session where
  "sample_session = init_session ''sqlcache'' 120"

definition env_down :: env where
  "env_down =
     \<lparr>redis_get = Inl (Exception ''ConnectionError''), time_lookup = 1000,
      db_execute = Inr sample_result,
      redis_set = Inl (Exception ''ConnectionError''), time_store = 1001\<rparr>"

definition env_miss :: env where
  "env_miss =
     \<lparr>redis_get = Inr None, time_lookup = 1000, db_execute = Inr sample_result,
      redis_set = Inr (), time_store = 1001\<rparr>"

definition env_hit :: env where
  "env_hit =
     \<lparr>redis_get = Inr (Some ''pickled''), time_lookup = 1010, db_execute = Inr sample_result,
      redis_set = Inr (), time_store = 1011\<rparr>"

text \<open>
  Two results of the store on which the introspection fails: the scalars raise while the
  mappings hold the row, and the serialization of the one ORM instance raises.
\<close>

definition scalars_failing :: raw_result where
  "scalars_failing =
     \<lparr>scalars_all = Inl (Exception ''ResourceClosedError''), mappings_all = Inr [sample_row]\<rparr>"

definition columns_failing :: raw_result where
  "columns_failing =
     \<lparr>scalars_all = Inr [Mapped (Inl (Exception ''DetachedInstanceError''))],
      mappings_all = Inr []\<rparr>"

text \<open>
  The session after the sample read was served by the store at time 1001, and an
  environment whose clock is past the expiry of that entry.
\<close>

definition cached_session :: session where
  "cached_session =
     sample_session\<lparr>last_from_cache := Some False,
       local_cache := [sample_key \<mapsto> (sample_payload, 1121)]\<rparr>"

definition env_late :: env where
  "env_late =
     \<lparr>redis_get = Inr None, time_lookup = 2000, db_execute = Inr sample_result,
      redis_set = Inr (), time_store = 2001\<rparr>"

text \<open>The same two parameters, given in the two orders.\<close>

definition params_ab :: pydict where
  "params_ab = [(''id'', PInt 1), (''active'', PBool True)]"

definition params_ba :: pydict where
  "params_ba = [(''active'', PBool True), (''id'', PInt 1)]"

definition insert_user :: statement where
  "insert_user = \<lparr>is_Select = False, text_of = Inr ''INSERT INTO users (username) VALUES (?)''\<rparr>"

section \<open>The paths of \<^verbatim>\<open>execute\<close>\<close>

lemma execute_not_select:
  assumes "\<not> is_select stmt"
  shows "execute L E s stmt ps =
    ((case db_execute E of Inl e \<Rightarrow> Inl e | Inr res \<Rightarrow> Inr (Native res)), s,
     [DbExecute stmt (params_or_empty ps)])"
  using assms by (simp add: execute_def Let_def split: sum.splits)

lemma execute_remote_hit:
  assumes "is_select stmt"
    and "make_cache_key (sha256 L) stmt (params_or_empty ps) (cache_prefix s) = Inr key"
    and "remote_lookup E = Some b"
  shows "execute L E s stmt ps =
    ((case pickle_loads L b of Inl e \<Rightarrow> Inl e | Inr p \<Rightarrow> Inr (Payload p)),
     s\<lparr>last_from_cache := Some True\<rparr>, [RedisGet key])"
  using assms by (simp add: execute_def Let_def split: sum.splits)

lemma execute_local_hit:
  assumes "is_select stmt"
    and "make_cache_key (sha256 L) stmt (params_or_empty ps) (cache_prefix s) = Inr key"
    and "remote_lookup E = None"
    and "local_cache s key = Some (p, expiry)"
    and "expiry > time_lookup E"
  shows "execute L E s stmt ps =
    (Inr (Payload p), s\<lparr>last_from_cache := Some True\<rparr>, [RedisGet key])"
  using assms by (simp add: execute_def Let_def)

lemma execute_local_absent:
  assumes "is_select stmt"
    and "make_cache_key (sha256 L) stmt (params_or_empty ps) (cache_prefix s) = Inr key"
    and "remote_lookup E = None"
    and "local_cache s key = None"
  shows "execute L E s stmt ps = hit_database L E s stmt (params_or_empty ps) key"
  using assms by (simp add: execute_def Let_def)

lemma execute_local_expired:
  assumes "is_select stmt"
    and "make_cache_key (sha256 L) stmt (params_or_empty ps) (cache_prefix s) = Inr key"
    and "remote_lookup E = None"
    and "local_cache s key = Some (p, expiry)"
    and "\<not> expiry > time_lookup E"
  shows "execute L E s stmt ps =
    hit_database L E (s\<lparr>local_cache := (local_cache s)(key := None)\<rparr>)
      stmt (params_or_empty ps) key"
  using assms by (simp add: execute_def Let_def)

text \<open>What the store path leaves behind, when the store answers and when it raises.\<close>

lemma hit_database_ok:
  assumes "db_execute E = Inr res"
  shows "hit_database L E s stmt params key =
    (Inr (Payload (materialize res)),
     s\<lparr>last_from_cache := Some False,
       local_cache := (local_cache s)(key \<mapsto>
          (materialize res, time_store E + real_of_int (ttl s)))\<rparr>,
     [RedisGet key, DbExecute stmt params] @ remote_store L s key (materialize res))"
  using assms by (simp add: hit_database_def Let_def)

lemma hit_database_raises:
  assumes "db_execute E = Inl e"
  shows "hit_database L E s stmt params key = (Inl e, s, [RedisGet key, DbExecute stmt params])"
  using assms by (simp add: hit_database_def)

text \<open>
  A miss: nothing usable in the remote tier, and no local entry that has not expired. The
  store path then runs, on the session itself or on the session without the expired entry;
  both give the same result, the same entry for the key and the same calls.
\<close>

lemma execute_miss_ok:
  assumes sel: "is_select stmt"
    and key: "make_cache_key (sha256 L) stmt (params_or_empty ps) (cache_prefix s) = Inr key"
    and remote: "remote_lookup E = None"
    and local: "\<forall>p expiry. local_cache s key = Some (p, expiry) \<longrightarrow> expiry \<le> time_lookup E"
    and db: "db_execute E = Inr res"
  shows "fst (execute L E s stmt ps) = Inr (Payload (materialize res))"
    and "last_from_cache (fst (snd (execute L E s stmt ps))) = Some False"
    and "local_cache (fst (snd (execute L E s stmt ps))) key =
           Some (materialize res, time_store E + real_of_int (ttl s))"
    and "snd (snd (execute L E s stmt ps)) =
           [RedisGet key, DbExecute stmt (params_or_empty ps)]
           @ remote_store L s key (materialize res)"
    and "cache_prefix (fst (snd (execute L E s stmt ps))) = cache_prefix s"
    and "ttl (fst (snd (execute L E s stmt ps))) = ttl s"
proof -
  let ?s' = "s\<lparr>local_cache := (local_cache s)(key := None)\<rparr>"
  have "execute L E s stmt ps = hit_database L E s stmt (params_or_empty ps) key
      \<or> execute L E s stmt ps = hit_database L E ?s' stmt (params_or_empty ps) key"
  proof (cases "local_cache s key")
    case None
    then show ?thesis using execute_local_absent [OF sel key remote] by simp
  next
    case (Some entry)
    obtain p expiry where entry: "entry = (p, expiry)" by (cases entry)
    with Some local have "\<not> expiry > time_lookup E" by auto
    with Some entry show ?thesis
      using execute_local_expired [OF sel key remote, of p expiry] by simp
  qed
  moreover have "ttl ?s' = ttl s" and "remote_store L ?s' key (materialize res)
      = remote_store L s key (materialize res)"
    by (simp_all add: remote_store_def split: sum.splits)
  ultimately show "fst (execute L E s stmt ps) = Inr (Payload (materialize res))"
    and "last_from_cache (fst (snd (execute L E s stmt ps))) = Some False"
    and "local_cache (fst (snd (execute L E s stmt ps))) key =
           Some (materialize res, time_store E + real_of_int (ttl s))"
    and "snd (snd (execute L E s stmt ps)) =
           [RedisGet key, DbExecute stmt (params_or_empty ps)]
           @ remote_store L s key (materialize res)"
    and "cache_prefix (fst (snd (execute L E s stmt ps))) = cache_prefix s"
    and "ttl (fst (snd (execute L E s stmt ps))) = ttl s"
    using hit_database_ok [OF db, of L s stmt "params_or_empty ps" key]
      hit_database_ok [OF db, of L ?s' stmt "params_or_empty ps" key]
    by auto
qed

text \<open>The key of a read only needs the text of the statement.\<close>

lemma make_cache_key_Inr:
  assumes "text_of stmt = Inr t"
  shows "make_cache_key H stmt params prefix = Inr (prefix @ '':'' @ H (key_raw t params))"
  using assms by (simp add: make_cache_key_def)

lemma remote_lookup_failure:
  assumes "redis_get E = Inl e"
  shows "remote_lookup E = None"
  using assms by (simp add: remote_lookup_def)

lemma remote_lookup_absent:
  assumes "redis_get E = Inr None"
  shows "remote_lookup E = None"
  using assms by (simp add: remote_lookup_def)

lemma remote_lookup_present:
  assumes "redis_get E = Inr (Some b)" and "b \<noteq> []"
  shows "remote_lookup E = Some b"
  using assms by (simp add: remote_lookup_def)

text \<open>The answer of the remote \<^verbatim>\<open>set\<close> is never read.\<close>

lemma execute_ignores_redis_set:
  "execute L (E\<lparr>redis_set := r\<rparr>) s stmt ps = execute L E s stmt ps"
  by (simp add: execute_def hit_database_def remote_lookup_def Let_def
      split: sum.splits option.splits)

text \<open>After a failed remote \<^verbatim>\<open>get\<close> the call goes on as after an absent key.\<close>

lemma execute_failure_as_absent:
  assumes "redis_get E = Inl e"
  shows "execute L E s stmt ps = execute L (E\<lparr>redis_get := Inr None\<rparr>) s stmt ps"
  using assms
  by (simp add: execute_def hit_database_def remote_lookup_def Let_def
      split: sum.splits option.splits)

text \<open>Evaluation of the samples.\<close>

lemma sample_key_eq:
  "make_cache_key (sha256 sample_lib) select_users (params_or_empty None)
     (cache_prefix sample_session) = Inr sample_key"
  by code_simp

lemma select_users_is_select: "is_select select_users"
  by code_simp

lemma update_users_not_select: "\<not> is_select update_users"
  by code_simp

section \<open>Statements that are not reads\<close>

text \<open>
  C4. A statement that is not an instance of \<^verbatim>\<open>Select\<close> and whose text (when
  \<^verbatim>\<open>str\<close> yields one), stripped and lowercased, does not start with \<^verbatim>\<open>select\<close>
  bypasses the cache: the only call made is the execution against the store, with the
  parameters (the empty dict for none); the remote tier is not called, the session, with
  its local tier, is unchanged, and the result of the store, or its exception, is returned
  as it is.
\<close>

theorem execute_bypass:
  assumes "\<not> is_Select stmt"
    and "\<forall>t. text_of stmt = Inr t \<longrightarrow> \<not> startswith (lower (strip t)) ''select''"
  shows "execute L E s stmt ps =
    ((case db_execute E of Inl e \<Rightarrow> Inl e | Inr res \<Rightarrow> Inr (Native res)), s,
     [DbExecute stmt (params_or_empty ps)])"
proof -
  from assms have "\<not> is_select stmt"
    by (auto simp: is_select_def split: sum.splits)
  then show ?thesis by (rule execute_not_select)
qed

theorem execute_bypass_witness:
  "\<not> is_Select update_users
   \<and> text_of update_users = Inr '' Update users SET is_active = 0''
   \<and> \<not> startswith (lower (strip '' Update users SET is_active = 0'')) ''select''
   \<and> execute sample_lib env_miss sample_session update_users None =
       (Inr (Native sample_result), sample_session, [DbExecute update_users []])"
proof -
  have h1: "\<not> is_Select update_users"
    by (simp add: update_users_def)
  have h0: "text_of update_users = Inr '' Update users SET is_active = 0''"
    by (simp add: update_users_def)
  have h': "\<not> startswith (lower (strip '' Update users SET is_active = 0'')) ''select''"
    by code_simp
  then have h2: "\<forall>t. text_of update_users = Inr t
      \<longrightarrow> \<not> startswith (lower (strip t)) ''select''"
    by (simp add: update_users_def)
  have "execute sample_lib env_miss sample_session update_users None =
       (Inr (Native sample_result), sample_session, [DbExecute update_users []])"
    using execute_bypass [OF h1 h2, of sample_lib env_miss sample_session None]
    by (simp add: env_miss_def params_or_empty_def)
  with h0 h1 h' show ?thesis by blast
qed

section \<open>Clearing the namespace\<close>

text \<open>
  C10. \<^verbatim>\<open>clear_cache\<close> catches nothing: an exception of the remote \<^verbatim>\<open>keys\<close> call,
  and an exception of the remote \<^verbatim>\<open>delete\<close> call made when there are keys, is the
  outcome of \<^verbatim>\<open>clear_cache\<close>. Whatever the remote tier answers, the session and its
  local tier are as before.
\<close>

theorem clear_cache_propagates:
  "fst (clear_cache s (Inl e) d) = Inl e
   \<and> (keys \<noteq> [] \<longrightarrow> fst (clear_cache s (Inr keys) (Inl e)) = Inl e)
   \<and> fst (snd (clear_cache s k d)) = s
   \<and> local_cache (fst (snd (clear_cache s k d))) = local_cache s"
  by (simp add: clear_cache_def clear_keys_def split: sum.splits prod.splits)

theorem clear_cache_propagates_witness:
  "[sample_key] \<noteq> []
   \<and> fst (clear_cache sample_session (Inr [sample_key]) (Inl (Exception ''ConnectionError'')))
       = Inl (Exception ''ConnectionError'')"
  using clear_cache_propagates [of sample_session "Exception ''ConnectionError''"
      "Inl (Exception ''ConnectionError'')" "[sample_key]" "Inr [sample_key]"]
  by simp

section \<open>The remote tier fails\<close>

text \<open>
  C1. For a read whose key can be derived, an exception of the remote \<^verbatim>\<open>get\<close> is
  swallowed: the call goes on exactly as after an absent key, and whatever the remote
  \<^verbatim>\<open>set\<close> answers afterwards makes no difference. The read is then served by the
  local tier or by the store: a local entry that has not expired is returned as it is, with
  the one remote call and the flag \<open>True\<close>; without such an entry the payload
  materialized from the answer of the store is returned and kept in the local tier, with
  the flag \<open>False\<close>. The only exception such a call can raise is the one the store
  raised.
\<close>

theorem remote_failure_swallowed:
  assumes sel: "is_select stmt"
    and key: "make_cache_key (sha256 L) stmt (params_or_empty ps) (cache_prefix s) = Inr key"
    and fails: "redis_get E = Inl e"
  shows "execute L E s stmt ps = execute L (E\<lparr>redis_get := Inr None, redis_set := r\<rparr>) s stmt ps
    \<and> (\<forall>p expiry. local_cache s key = Some (p, expiry) \<and> expiry > time_lookup E \<longrightarrow>
          execute L E s stmt ps =
            (Inr (Payload p), s\<lparr>last_from_cache := Some True\<rparr>, [RedisGet key]))
    \<and> ((\<forall>p expiry. local_cache s key = Some (p, expiry) \<longrightarrow> expiry \<le> time_lookup E) \<longrightarrow>
          (\<forall>res. db_execute E = Inr res \<longrightarrow>
             fst (execute L E s stmt ps) = Inr (Payload (materialize res))
             \<and> last_from_cache (fst (snd (execute L E s stmt ps))) = Some False
             \<and> local_cache (fst (snd (execute L E s stmt ps))) key =
                 Some (materialize res, time_store E + real_of_int (ttl s)))
          \<and> (\<forall>x. db_execute E = Inl x \<longrightarrow> fst (execute L E s stmt ps) = Inl x))
    \<and> (\<forall>x. fst (execute L E s stmt ps) = Inl x \<longrightarrow> db_execute E = Inl x)
    \<and> (\<forall>res. db_execute E = Inr res \<longrightarrow> (\<exists>p. fst (execute L E s stmt ps) = Inr (Payload p)))"
proof -
  have remote: "remote_lookup E = None"
    using fails by (rule remote_lookup_failure)
  have same: "execute L E s stmt ps
      = execute L (E\<lparr>redis_get := Inr None, redis_set := r\<rparr>) s stmt ps"
    using execute_failure_as_absent [OF fails, of L s stmt ps]
      execute_ignores_redis_set [where E = "E\<lparr>redis_get := Inr None\<rparr>" and r = r]
    by simp
  have local_served: "\<forall>p expiry. local_cache s key = Some (p, expiry) \<and> expiry > time_lookup E \<longrightarrow>
      execute L E s stmt ps =
        (Inr (Payload p), s\<lparr>last_from_cache := Some True\<rparr>, [RedisGet key])"
    using execute_local_hit [OF sel key remote] by blast
  have store_served: "(\<forall>p expiry. local_cache s key = Some (p, expiry) \<longrightarrow> expiry \<le> time_lookup E) \<longrightarrow>
      (\<forall>res. db_execute E = Inr res \<longrightarrow>
         fst (execute L E s stmt ps) = Inr (Payload (materialize res))
         \<and> last_from_cache (fst (snd (execute L E s stmt ps))) = Some False
         \<and> local_cache (fst (snd (execute L E s stmt ps))) key =
             Some (materialize res, time_store E + real_of_int (ttl s)))
      \<and> (\<forall>x. db_execute E = Inl x \<longrightarrow> fst (execute L E s stmt ps) = Inl x)"
  proof (intro impI conjI allI)
    fix res
    assume loc: "\<forall>p expiry. local_cache s key = Some (p, expiry) \<longrightarrow> expiry \<le> time_lookup E"
      and db: "db_execute E = Inr res"
    note m = execute_miss_ok [OF sel key remote loc db]
    show "fst (execute L E s stmt ps) = Inr (Payload (materialize res))" by (rule m(1))
    show "last_from_cache (fst (snd (execute L E s stmt ps))) = Some False" by (rule m(2))
    show "local_cache (fst (snd (execute L E s stmt ps))) key =
        Some (materialize res, time_store E + real_of_int (ttl s))" by (rule m(3))
  next
    fix x
    assume loc: "\<forall>p expiry. local_cache s key = Some (p, expiry) \<longrightarrow> expiry \<le> time_lookup E"
      and db: "db_execute E = Inl x"
    show "fst (execute L E s stmt ps) = Inl x"
      using sel key remote loc db
      by (auto simp: execute_def hit_database_def Let_def split: option.splits)
  qed
  have outcome: "(\<forall>x. fst (execute L E s stmt ps) = Inl x \<longrightarrow> db_execute E = Inl x)
    \<and> (\<forall>res. db_execute E = Inr res \<longrightarrow> (\<exists>p. fst (execute L E s stmt ps) = Inr (Payload p)))"
    using sel key remote
    by (cases "db_execute E")
       (auto simp: execute_def hit_database_def Let_def split: option.splits)
  from same local_served store_served outcome show ?thesis by blast
qed

theorem remote_failure_swallowed_witness:
  "is_select select_users
   \<and> make_cache_key (sha256 sample_lib) select_users (params_or_empty None)
        (cache_prefix sample_session) = Inr sample_key
   \<and> make_cache_key (sha256 sample_lib) select_users (params_or_empty None)
        (cache_prefix cached_session) = Inr sample_key
   \<and> redis_get env_down = Inl (Exception ''ConnectionError'')
   \<and> redis_set env_down = Inl (Exception ''ConnectionError'')
   \<and> execute sample_lib env_down sample_session select_users None
       = execute sample_lib (env_down\<lparr>redis_get := Inr None, redis_set := Inr ()\<rparr>)
           sample_session select_users None
   \<and> local_cache cached_session sample_key = Some (sample_payload, 1121)
   \<and> 1121 > time_lookup env_down
   \<and> execute sample_lib env_down cached_session select_users None
       = (Inr (Payload sample_payload), cached_session\<lparr>last_from_cache := Some True\<rparr>,
          [RedisGet sample_key])
   \<and> local_cache sample_session sample_key = None
   \<and> db_execute env_down = Inr sample_result
   \<and> fst (execute sample_lib env_down sample_session select_users None)
       = Inr (Payload sample_payload)
   \<and> last_from_cache (fst (snd (execute sample_lib env_down sample_session select_users None)))
       = Some False"
proof -
  have key2: "make_cache_key (sha256 sample_lib) select_users (params_or_empty None)
      (cache_prefix cached_session) = Inr sample_key"
    by code_simp
  have h3: "redis_get env_down = Inl (Exception ''ConnectionError'')"
    and h3': "redis_set env_down = Inl (Exception ''ConnectionError'')"
    and h4: "db_execute env_down = Inr sample_result"
    and h5: "(1121::real) > time_lookup env_down"
    by (simp_all add: env_down_def)
  have loc: "local_cache cached_session sample_key = Some (sample_payload, 1121)"
    by (simp add: cached_session_def sample_session_def init_session_def)
  have none: "local_cache sample_session sample_key = None"
    by (simp add: sample_session_def init_session_def)
  have m: "materialize sample_result = sample_payload"
    by code_simp
  note a = remote_failure_swallowed [OF select_users_is_select sample_key_eq h3,
      where r = "Inr ()"]
  note b = remote_failure_swallowed [OF select_users_is_select key2 h3, where r = "Inr ()"]
  have c1: "execute sample_lib env_down sample_session select_users None
       = execute sample_lib (env_down\<lparr>redis_get := Inr None, redis_set := Inr ()\<rparr>)
           sample_session select_users None"
    using a by blast
  have c2: "execute sample_lib env_down cached_session select_users None
       = (Inr (Payload sample_payload), cached_session\<lparr>last_from_cache := Some True\<rparr>,
          [RedisGet sample_key])"
    using b loc h5 by blast
  have c3: "fst (execute sample_lib env_down sample_session select_users None)
       = Inr (Payload sample_payload)
     \<and> last_from_cache (fst (snd (execute sample_lib env_down sample_session select_users None)))
       = Some False"
  proof -
    have none': "\<forall>p expiry. local_cache sample_session sample_key = Some (p, expiry)
        \<longrightarrow> expiry \<le> time_lookup env_down"
      using none by simp
    have "fst (execute sample_lib env_down sample_session select_users None)
         = Inr (Payload (materialize sample_result))
       \<and> last_from_cache (fst (snd (execute sample_lib env_down sample_session select_users None)))
         = Some False"
      using a none' h4 by blast
    then show ?thesis unfolding m .
  qed
  from select_users_is_select sample_key_eq key2 h3 h3' c1 loc h5 c2 none h4 c3
  show ?thesis by blast
qed

section \<open>The cache write after a miss\<close>

text \<open>
  C6. On a miss that the store answers, the payload is offered to the remote tier with the
  configured TTL (one \<^verbatim>\<open>set\<close> call, made when the payload could be serialized), and
  whatever that call answers, an exception included, the whole outcome of \<^verbatim>\<open>execute\<close>
  is the same: the payload is returned and the local tier holds it for the key with
  expiry \<open>now + ttl\<close>.
\<close>

theorem cache_write_after_miss:
  assumes "is_select stmt"
    and "make_cache_key (sha256 L) stmt (params_or_empty ps) (cache_prefix s) = Inr key"
    and "remote_lookup E = None"
    and "\<forall>p expiry. local_cache s key = Some (p, expiry) \<longrightarrow> expiry \<le> time_lookup E"
    and "db_execute E = Inr res"
  shows "local_cache (fst (snd (execute L E s stmt ps))) key =
           Some (materialize res, time_store E + real_of_int (ttl s))
    \<and> (\<forall>b. pickle_dumps L (materialize res) = Inr b \<longrightarrow>
          snd (snd (execute L E s stmt ps)) =
            [RedisGet key, DbExecute stmt (params_or_empty ps), RedisSet key b (ttl s)])
    \<and> execute L (E\<lparr>redis_set := r\<rparr>) s stmt ps = execute L E s stmt ps
    \<and> fst (execute L E s stmt ps) = Inr (Payload (materialize res))"
  using execute_miss_ok(1,3,4) [OF assms] execute_ignores_redis_set [of L r E s stmt ps]
  by (simp add: remote_store_def)

theorem cache_write_after_miss_witness:
  "is_select select_users
   \<and> make_cache_key (sha256 sample_lib) select_users (params_or_empty None)
        (cache_prefix sample_session) = Inr sample_key
   \<and> remote_lookup env_down = None
   \<and> local_cache sample_session sample_key = None
   \<and> db_execute env_down = Inr sample_result
   \<and> redis_set env_down = Inl (Exception ''ConnectionError'')
   \<and> local_cache (fst (snd (execute sample_lib env_down sample_session select_users None)))
        sample_key = Some (sample_payload, 1121)
   \<and> snd (snd (execute sample_lib env_down sample_session select_users None)) =
        [RedisGet sample_key, DbExecute select_users [], RedisSet sample_key ''pickled'' 120]"
proof -
  have h3: "remote_lookup env_down = None"
    by (simp add: remote_lookup_def env_down_def)
  have h4: "local_cache sample_session sample_key = None"
    by (simp add: sample_session_def init_session_def)
  then have h4': "\<forall>p expiry. local_cache sample_session sample_key = Some (p, expiry)
      \<longrightarrow> expiry \<le> time_lookup env_down"
    by simp
  have h5: "db_execute env_down = Inr sample_result"
    by (simp add: env_down_def)
  have h6: "redis_set env_down = Inl (Exception ''ConnectionError'')"
    by (simp add: env_down_def)
  have m: "materialize sample_result = sample_payload"
    by code_simp
  have d: "pickle_dumps sample_lib sample_payload = Inr ''pickled''"
    by (simp add: sample_lib_def)
  have t: "time_store env_down = 1001"
    by (simp add: env_down_def)
  have p: "params_or_empty None = []"
    by (simp add: params_or_empty_def)
  have t': "ttl sample_session = 120"
    by (simp add: sample_session_def init_session_def)
  show ?thesis
    using select_users_is_select sample_key_eq h3 h4 h5 h6
      cache_write_after_miss [OF select_users_is_select sample_key_eq h3 h4' h5, of "Inr ()"]
    by (simp add: m d t p t')
qed

section \<open>The order of the lookup\<close>

text \<open>
  C7. A read asks the remote tier first. A remote hit (a non-empty value) returns at once:
  the value is deserialized, the call is marked as served by the cache, and the one call
  made is the remote \<^verbatim>\<open>get\<close>, whatever the local tier holds. After a remote miss or a
  remote failure, a local entry whose expiry is greater than the clock is returned, with
  no call to the store. A local entry whose expiry is not greater than the clock is removed
  and the store is asked next: when the store raises, the exception propagates and the
  entry is gone; when the store answers, its payload is returned and replaces the entry.
\<close>

theorem lookup_order:
  assumes sel: "is_select stmt"
    and key: "make_cache_key (sha256 L) stmt (params_or_empty ps) (cache_prefix s) = Inr key"
  shows "(redis_get E = Inr (Some b) \<and> b \<noteq> [] \<longrightarrow>
            execute L E s stmt ps =
              ((case pickle_loads L b of Inl e \<Rightarrow> Inl e | Inr p \<Rightarrow> Inr (Payload p)),
               s\<lparr>last_from_cache := Some True\<rparr>, [RedisGet key]))
    \<and> ((redis_get E = Inr None \<or> redis_get E = Inl e)
          \<and> local_cache s key = Some (p, expiry) \<and> expiry > time_lookup E \<longrightarrow>
            execute L E s stmt ps =
              (Inr (Payload p), s\<lparr>last_from_cache := Some True\<rparr>, [RedisGet key]))
    \<and> ((redis_get E = Inr None \<or> redis_get E = Inl e)
          \<and> local_cache s key = Some (p, expiry) \<and> \<not> expiry > time_lookup E \<longrightarrow>
            take 2 (snd (snd (execute L E s stmt ps))) =
              [RedisGet key, DbExecute stmt (params_or_empty ps)]
            \<and> (\<forall>x. db_execute E = Inl x \<longrightarrow>
                  fst (execute L E s stmt ps) = Inl x
                  \<and> local_cache (fst (snd (execute L E s stmt ps))) key = None)
            \<and> (\<forall>res. db_execute E = Inr res \<longrightarrow>
                  fst (execute L E s stmt ps) = Inr (Payload (materialize res))
                  \<and> local_cache (fst (snd (execute L E s stmt ps))) key =
                      Some (materialize res, time_store E + real_of_int (ttl s))))"
proof (intro conjI impI)
  assume "redis_get E = Inr (Some b) \<and> b \<noteq> []"
  then have "remote_lookup E = Some b" by (simp add: remote_lookup_present)
  then show "execute L E s stmt ps =
      ((case pickle_loads L b of Inl e \<Rightarrow> Inl e | Inr p \<Rightarrow> Inr (Payload p)),
       s\<lparr>last_from_cache := Some True\<rparr>, [RedisGet key])"
    by (rule execute_remote_hit [OF sel key])
next
  assume a: "(redis_get E = Inr None \<or> redis_get E = Inl e)
      \<and> local_cache s key = Some (p, expiry) \<and> expiry > time_lookup E"
  then have "remote_lookup E = None"
    using remote_lookup_absent remote_lookup_failure by blast
  with a show "execute L E s stmt ps =
      (Inr (Payload p), s\<lparr>last_from_cache := Some True\<rparr>, [RedisGet key])"
    using execute_local_hit [OF sel key] by blast
next
  assume a: "(redis_get E = Inr None \<or> redis_get E = Inl e)
      \<and> local_cache s key = Some (p, expiry) \<and> \<not> expiry > time_lookup E"
  then have "remote_lookup E = None"
    using remote_lookup_absent remote_lookup_failure by blast
  with a have ex: "execute L E s stmt ps =
      hit_database L E (s\<lparr>local_cache := (local_cache s)(key := None)\<rparr>)
        stmt (params_or_empty ps) key"
    using execute_local_expired [OF sel key] by blast
  show "take 2 (snd (snd (execute L E s stmt ps))) =
      [RedisGet key, DbExecute stmt (params_or_empty ps)]"
    unfolding ex by (simp add: hit_database_def Let_def split: sum.splits)
  show "\<forall>x. db_execute E = Inl x \<longrightarrow>
      fst (execute L E s stmt ps) = Inl x
      \<and> local_cache (fst (snd (execute L E s stmt ps))) key = None"
    unfolding ex by (simp add: hit_database_raises)
  show "\<forall>res. db_execute E = Inr res \<longrightarrow>
      fst (execute L E s stmt ps) = Inr (Payload (materialize res))
      \<and> local_cache (fst (snd (execute L E s stmt ps))) key =
          Some (materialize res, time_store E + real_of_int (ttl s))"
    unfolding ex by (simp add: hit_database_ok)
qed

theorem lookup_order_witness:
  "is_select select_users
   \<and> make_cache_key (sha256 sample_lib) select_users (params_or_empty None)
        (cache_prefix cached_session) = Inr sample_key
   \<and> redis_get env_hit = Inr (Some ''pickled'') \<and> ''pickled'' \<noteq> []
   \<and> fst (execute sample_lib env_hit cached_session select_users None)
        = Inr (Payload sample_payload)
   \<and> snd (snd (execute sample_lib env_hit cached_session select_users None))
        = [RedisGet sample_key]
   \<and> redis_get env_miss = Inr None
   \<and> local_cache cached_session sample_key = Some (sample_payload, 1121)
   \<and> 1121 > time_lookup env_miss
   \<and> fst (execute sample_lib env_miss cached_session select_users None)
        = Inr (Payload sample_payload)
   \<and> snd (snd (execute sample_lib env_miss cached_session select_users None))
        = [RedisGet sample_key]
   \<and> redis_get env_late = Inr None
   \<and> \<not> 1121 > time_lookup env_late
   \<and> db_execute env_late = Inr sample_result
   \<and> fst (execute sample_lib env_late cached_session select_users None)
        = Inr (Payload sample_payload)
   \<and> local_cache (fst (snd (execute sample_lib env_late cached_session select_users None)))
        sample_key = Some (sample_payload, 2121)"
proof -
  have key: "make_cache_key (sha256 sample_lib) select_users (params_or_empty None)
      (cache_prefix cached_session) = Inr sample_key"
    by code_simp
  have hit: "redis_get env_hit = Inr (Some ''pickled'')" "''pickled'' \<noteq> []"
    by (simp_all add: env_hit_def)
  have miss: "redis_get env_miss = Inr None" "(1121::real) > time_lookup env_miss"
    by (simp_all add: env_miss_def)
  have late: "redis_get env_late = Inr None" "\<not> (1121::real) > time_lookup env_late"
    "db_execute env_late = Inr sample_result" "time_store env_late = 2001"
    by (simp_all add: env_late_def)
  have loc: "local_cache cached_session sample_key = Some (sample_payload, 1121)"
    "ttl cached_session = 120"
    by (simp_all add: cached_session_def sample_session_def init_session_def)
  have l: "pickle_loads sample_lib ''pickled'' = Inr sample_payload"
    by (simp add: sample_lib_def)
  have m: "materialize sample_result = sample_payload"
    by code_simp
  note th = lookup_order [OF select_users_is_select key]
  have a: "fst (execute sample_lib env_hit cached_session select_users None)
        = Inr (Payload sample_payload)
      \<and> snd (snd (execute sample_lib env_hit cached_session select_users None))
        = [RedisGet sample_key]"
    using th [where E = env_hit and b = "''pickled''"] hit by (simp add: l)
  have b: "fst (execute sample_lib env_miss cached_session select_users None)
        = Inr (Payload sample_payload)
      \<and> snd (snd (execute sample_lib env_miss cached_session select_users None))
        = [RedisGet sample_key]"
    using th [where E = env_miss and p = sample_payload and expiry = 1121] miss loc
    by simp
  have c: "fst (execute sample_lib env_late cached_session select_users None)
        = Inr (Payload sample_payload)
      \<and> local_cache (fst (snd (execute sample_lib env_late cached_session select_users None)))
        sample_key = Some (sample_payload, 2121)"
    using th [where E = env_late and p = sample_payload and expiry = 1121] late loc
    by (simp add: m)
  from select_users_is_select key hit miss late(1-3) loc(1) a b c show ?thesis
    by blast
qed

section \<open>Reading twice\<close>

text \<open>
  C3. The same read is issued twice. Before the first call neither tier has a usable entry
  for its key (the remote tier answers that the key is absent), and the store answers;
  \<^verbatim>\<open>pickle\<close> gives the payload back from the bytes it made of it. At the second call
  the cache serves the entry: the remote tier returns the bytes the first call stored, or
  it answers absent and the local entry has not expired. Then the first call is served by
  the store (the flag is \<open>False\<close>) and stores the payload in the remote tier, the second
  is served by the cache (the flag is \<open>True\<close>) with the one remote \<^verbatim>\<open>get\<close>, and both
  return the same payload.
\<close>

theorem read_through_idempotence:
  assumes sel: "is_select stmt"
    and key: "make_cache_key (sha256 L) stmt (params_or_empty ps) (cache_prefix s) = Inr key"
    and miss1: "redis_get E1 = Inr None"
    and local1: "\<forall>p expiry. local_cache s key = Some (p, expiry) \<longrightarrow> expiry \<le> time_lookup E1"
    and db1: "db_execute E1 = Inr res"
    and dumps: "pickle_dumps L (materialize res) = Inr b"
    and nonempty: "b \<noteq> []"
    and loads: "pickle_loads L b = Inr (materialize res)"
    and first: "execute L E1 s stmt ps = (r1, s1, ev1)"
    and lookup2: "redis_get E2 = Inr (Some b)
        \<or> (redis_get E2 = Inr None \<and> time_lookup E2 < time_store E1 + real_of_int (ttl s))"
    and second: "execute L E2 s1 stmt ps = (r2, s2, ev2)"
  shows "r1 = Inr (Payload (materialize res)) \<and> last_from_cache s1 = Some False
    \<and> ev1 = [RedisGet key, DbExecute stmt (params_or_empty ps), RedisSet key b (ttl s)]
    \<and> r2 = r1 \<and> last_from_cache s2 = Some True \<and> ev2 = [RedisGet key]"
proof -
  have remote1: "remote_lookup E1 = None"
    using miss1 by (rule remote_lookup_absent)
  note m = execute_miss_ok [OF sel key remote1 local1 db1]
  have r1: "r1 = Inr (Payload (materialize res))"
    using m(1) first by simp
  have flag1: "last_from_cache s1 = Some False"
    using m(2) first by simp
  have loc1: "local_cache s1 key = Some (materialize res, time_store E1 + real_of_int (ttl s))"
    using m(3) first by simp
  have ev1: "ev1 = [RedisGet key, DbExecute stmt (params_or_empty ps), RedisSet key b (ttl s)]"
    using m(4) first dumps by (simp add: remote_store_def)
  have "cache_prefix s1 = cache_prefix s"
    using m(5) first by simp
  with key have key2:
    "make_cache_key (sha256 L) stmt (params_or_empty ps) (cache_prefix s1) = Inr key"
    by simp
  have "execute L E2 s1 stmt ps =
      (Inr (Payload (materialize res)), s1\<lparr>last_from_cache := Some True\<rparr>, [RedisGet key])"
    using lookup2
  proof
    assume "redis_get E2 = Inr (Some b)"
    then have "remote_lookup E2 = Some b"
      using nonempty by (rule remote_lookup_present)
    then show ?thesis
      using execute_remote_hit [OF sel key2, of E2 b] loads by simp
  next
    assume a: "redis_get E2 = Inr None
        \<and> time_lookup E2 < time_store E1 + real_of_int (ttl s)"
    then have "remote_lookup E2 = None"
      by (simp add: remote_lookup_absent)
    then show ?thesis
      using execute_local_hit [OF sel key2 _ loc1] a by simp
  qed
  with second have "r2 = Inr (Payload (materialize res))"
    and "s2 = s1\<lparr>last_from_cache := Some True\<rparr>" and "ev2 = [RedisGet key]"
    by simp_all
  with r1 flag1 ev1 show ?thesis by simp
qed

theorem read_through_idempotence_witness:
  "is_select select_users
   \<and> make_cache_key (sha256 sample_lib) select_users (params_or_empty None)
        (cache_prefix sample_session) = Inr sample_key
   \<and> redis_get env_miss = Inr None
   \<and> local_cache sample_session sample_key = None
   \<and> db_execute env_miss = Inr sample_result
   \<and> pickle_dumps sample_lib (materialize sample_result) = Inr ''pickled''
   \<and> ''pickled'' \<noteq> []
   \<and> pickle_loads sample_lib ''pickled'' = Inr (materialize sample_result)
   \<and> redis_get env_hit = Inr (Some ''pickled'')
   \<and> fst (execute sample_lib env_miss sample_session select_users None)
        = Inr (Payload sample_payload)
   \<and> last_from_cache (fst (snd (execute sample_lib env_miss sample_session select_users None)))
        = Some False
   \<and> fst (execute sample_lib env_hit
        (fst (snd (execute sample_lib env_miss sample_session select_users None)))
        select_users None) = Inr (Payload sample_payload)
   \<and> last_from_cache (fst (snd (execute sample_lib env_hit
        (fst (snd (execute sample_lib env_miss sample_session select_users None)))
        select_users None))) = Some True"
proof -
  let ?c1 = "execute sample_lib env_miss sample_session select_users None"
  let ?c2 = "execute sample_lib env_hit (fst (snd ?c1)) select_users None"
  have m: "materialize sample_result = sample_payload"
    by code_simp
  have h3: "redis_get env_miss = Inr None" and h5: "db_execute env_miss = Inr sample_result"
    by (simp_all add: env_miss_def)
  have h4: "local_cache sample_session sample_key = None"
    by (simp add: sample_session_def init_session_def)
  then have h4': "\<forall>p expiry. local_cache sample_session sample_key = Some (p, expiry)
      \<longrightarrow> expiry \<le> time_lookup env_miss"
    by simp
  have h6: "pickle_dumps sample_lib (materialize sample_result) = Inr ''pickled''"
    and h8: "pickle_loads sample_lib ''pickled'' = Inr (materialize sample_result)"
    by (simp_all add: m sample_lib_def)
  have h7: "''pickled'' \<noteq> []" by simp
  have h9: "redis_get env_hit = Inr (Some ''pickled'')"
    by (simp add: env_hit_def)
  have first: "?c1 = (fst ?c1, fst (snd ?c1), snd (snd ?c1))" by simp
  have second: "?c2 = (fst ?c2, fst (snd ?c2), snd (snd ?c2))" by simp
  have "fst ?c1 = Inr (Payload (materialize sample_result))
      \<and> last_from_cache (fst (snd ?c1)) = Some False
      \<and> snd (snd ?c1) = [RedisGet sample_key, DbExecute select_users (params_or_empty None),
            RedisSet sample_key ''pickled'' (ttl sample_session)]
      \<and> fst ?c2 = fst ?c1 \<and> last_from_cache (fst (snd ?c2)) = Some True
      \<and> snd (snd ?c2) = [RedisGet sample_key]"
    by (rule read_through_idempotence [OF select_users_is_select sample_key_eq h3 h4' h5
          h6 h7 h8 first disjI1 [OF h9] second])
  with select_users_is_select sample_key_eq h3 h4 h5 h6 h7 h8 h9 show ?thesis
    by (simp add: m)
qed

section \<open>Failures of the materialization\<close>

text \<open>
  C5, as amended. On a miss that the store answers, no failure of the introspection of
  the result propagates: \<^verbatim>\<open>execute\<close> returns a payload, and the local tier holds that
  payload. A failure of the scalars falls back to the mappings, and the payload is the
  list of their rows; it is empty when the mappings fail too, when the mappings fail after
  an empty list of scalars, and when the serialization of the ORM instances fails. The
  payload, degraded or not, is the value returned to the caller.
\<close>

theorem materialization_recovered:
  assumes "is_select stmt"
    and "make_cache_key (sha256 L) stmt (params_or_empty ps) (cache_prefix s) = Inr key"
    and "remote_lookup E = None"
    and "\<forall>p expiry. local_cache s key = Some (p, expiry) \<longrightarrow> expiry \<le> time_lookup E"
    and "db_execute E = Inr res"
  shows "fst (execute L E s stmt ps) = Inr (Payload (materialize res))
    \<and> local_cache (fst (snd (execute L E s stmt ps))) key =
         Some (materialize res, time_store E + real_of_int (ttl s))
    \<and> (\<forall>e rows. scalars_all res = Inl e \<and> mappings_all res = Inr rows
          \<longrightarrow> materialize res = map Row rows)
    \<and> (\<forall>e e'. (scalars_all res = Inl e \<or> scalars_all res = Inr [])
          \<and> mappings_all res = Inl e' \<longrightarrow> materialize res = [])
    \<and> (\<forall>first rest e. scalars_all res = Inr (first # rest) \<and> has_mapper first
          \<and> column_dicts (first # rest) = Inl e \<longrightarrow> materialize res = [])"
proof -
  have "\<forall>e rows. scalars_all res = Inl e \<and> mappings_all res = Inr rows
      \<longrightarrow> materialize res = map Row rows"
    by (simp add: materialize_def from_mappings_def)
  moreover have "\<forall>e e'. (scalars_all res = Inl e \<or> scalars_all res = Inr [])
      \<and> mappings_all res = Inl e' \<longrightarrow> materialize res = []"
    by (auto simp: materialize_def from_mappings_def)
  moreover have "\<forall>first rest e. scalars_all res = Inr (first # rest) \<and> has_mapper first
      \<and> column_dicts (first # rest) = Inl e \<longrightarrow> materialize res = []"
    by (simp add: materialize_def)
  ultimately show ?thesis
    using execute_miss_ok(1,3) [OF assms] by blast
qed

theorem materialization_recovered_witness:
  "is_select select_users
   \<and> make_cache_key (sha256 sample_lib) select_users (params_or_empty None)
        (cache_prefix sample_session) = Inr sample_key
   \<and> remote_lookup (env_miss\<lparr>db_execute := Inr scalars_failing\<rparr>) = None
   \<and> local_cache sample_session sample_key = None
   \<and> db_execute (env_miss\<lparr>db_execute := Inr scalars_failing\<rparr>) = Inr scalars_failing
   \<and> scalars_all scalars_failing = Inl (Exception ''ResourceClosedError'')
   \<and> mappings_all scalars_failing = Inr [sample_row]
   \<and> fst (execute sample_lib (env_miss\<lparr>db_execute := Inr scalars_failing\<rparr>)
        sample_session select_users None) = Inr (Payload [Row sample_row])"
proof -
  let ?E = "env_miss\<lparr>db_execute := Inr scalars_failing\<rparr>"
  have h3: "remote_lookup ?E = None"
    by (simp add: remote_lookup_def env_miss_def)
  have h4: "local_cache sample_session sample_key = None"
    by (simp add: sample_session_def init_session_def)
  then have h4': "\<forall>p expiry. local_cache sample_session sample_key = Some (p, expiry)
      \<longrightarrow> expiry \<le> time_lookup ?E"
    by simp
  have h5: "db_execute ?E = Inr scalars_failing"
    by simp
  have h6: "scalars_all scalars_failing = Inl (Exception ''ResourceClosedError'')"
    and h7: "mappings_all scalars_failing = Inr [sample_row]"
    by (simp_all add: scalars_failing_def)
  show ?thesis
    using select_users_is_select sample_key_eq h3 h4 h5 h6 h7
      materialization_recovered [OF select_users_is_select sample_key_eq h3 h4' h5]
    by auto
qed

text \<open>
  C5, as stated, fails at two results of the store. When the scalars raise and the
  mappings hold a row, the payload is that row and not the empty payload. When the
  serialization of the one ORM instance raises, the caller of \<^verbatim>\<open>execute\<close> receives the
  empty payload, where the same call without the failure returns the row: the value
  returned to the caller is the materialized payload and the failure changes it.
\<close>

theorem materialization_counterexample:
  "scalars_all scalars_failing = Inl (Exception ''ResourceClosedError'')
   \<and> fst (execute sample_lib (env_miss\<lparr>db_execute := Inr scalars_failing\<rparr>)
        sample_session select_users None) = Inr (Payload [Row sample_row])
   \<and> [Row sample_row] \<noteq> []
   \<and> scalars_all columns_failing = Inr [Mapped (Inl (Exception ''DetachedInstanceError''))]
   \<and> fst (execute sample_lib (env_miss\<lparr>db_execute := Inr columns_failing\<rparr>)
        sample_session select_users None) = Inr (Payload [])
   \<and> fst (execute sample_lib (env_miss\<lparr>db_execute := Inr sample_result\<rparr>)
        sample_session select_users None) = Inr (Payload [Row sample_row])"
  by code_simp

section \<open>The flag of the last call\<close>

text \<open>
  C8, at a failing input. A read is served by the remote tier and sets the flag to
  \<open>True\<close>. The next call executes an \<^verbatim>\<open>UPDATE\<close>: it is served by the store and
  returns the result of the store, and the flag is still \<open>True\<close>.
\<close>

theorem flag_stale_after_bypass:
  "last_from_cache (fst (snd (execute sample_lib env_hit sample_session select_users None)))
     = Some True
   \<and> fst (execute sample_lib env_miss
        (fst (snd (execute sample_lib env_hit sample_session select_users None)))
        update_users None) = Inr (Native sample_result)
   \<and> snd (snd (execute sample_lib env_miss
        (fst (snd (execute sample_lib env_hit sample_session select_users None)))
        update_users None)) = [DbExecute update_users []]
   \<and> last_from_cache (fst (snd (execute sample_lib env_miss
        (fst (snd (execute sample_lib env_hit sample_session select_users None)))
        update_users None))) = Some True"
  by code_simp

section \<open>The invalidation listener\<close>

text \<open>
  C9. After a statement whose text, stripped and lowercased, starts with \<^verbatim>\<open>insert\<close>,
  \<^verbatim>\<open>update\<close> or \<^verbatim>\<open>delete\<close>, the hook, called where a loop is running, returns
  normally, having put one task on the loop and made no call to the remote tier itself.
  The task, when the loop runs it, asks for the keys under \<^verbatim>\<open>prefix:*\<close> and deletes
  all the keys it is given. And for every statement, with or without a running loop, the
  hook returns normally: what is raised inside it never reaches the write.
\<close>

theorem invalidation_scheduled:
  assumes "text_of clauseelement = Inr t"
    and "startswith_any (lower (strip t)) [''insert'', ''update'', ''delete'']"
  shows "after_execute prefix True clauseelement = (Inr (), [ClearCacheTask prefix], [])
    \<and> (\<forall>keys r. keys \<noteq> [] \<longrightarrow>
          snd (run_task (ClearCacheTask prefix) (Inr keys) r) =
            [RedisKeys (prefix @ '':*''), RedisDelete keys])
    \<and> (\<forall>running c. fst (after_execute prefix running c) = Inr ())"
proof -
  have "after_execute prefix True clauseelement = (Inr (), [ClearCacheTask prefix], [])"
    using assms by (simp add: after_execute_def after_execute_body_def)
  moreover have "\<forall>keys r. keys \<noteq> [] \<longrightarrow>
      snd (run_task (ClearCacheTask prefix) (Inr keys) r) =
        [RedisKeys (prefix @ '':*''), RedisDelete keys]"
    by (simp add: run_task_def clear_keys_def split: sum.splits)
  moreover have "\<forall>running c. fst (after_execute prefix running c) = Inr ()"
    by (simp add: after_execute_def split: sum.splits)
  ultimately show ?thesis by blast
qed

theorem invalidation_scheduled_witness:
  "text_of insert_user = Inr ''INSERT INTO users (username) VALUES (?)''
   \<and> startswith_any (lower (strip ''INSERT INTO users (username) VALUES (?)''))
        [''insert'', ''update'', ''delete'']
   \<and> after_execute ''sqlcache'' True insert_user
        = (Inr (), [ClearCacheTask ''sqlcache''], [])
   \<and> snd (run_task (ClearCacheTask ''sqlcache'') (Inr [sample_key]) (Inr 1))
        = [RedisKeys ''sqlcache:*'', RedisDelete [sample_key]]"
proof -
  have h1: "text_of insert_user = Inr ''INSERT INTO users (username) VALUES (?)''"
    by (simp add: insert_user_def)
  have h2: "startswith_any (lower (strip ''INSERT INTO users (username) VALUES (?)''))
      [''insert'', ''update'', ''delete'']"
    by code_simp
  show ?thesis
    using h1 h2 invalidation_scheduled [OF h1 h2, of "''sqlcache''"]
    by simp
qed

section \<open>The key and the order of the parameters\<close>

text \<open>
  C2, at a failing input. The two parameter dicts hold the same items and differ in the
  order of insertion only. \<^verbatim>\<open>make_cache_key\<close> hashes two different strings for them,
  so the two keys are equal only if the hash collides on these strings.
\<close>

theorem make_cache_key_param_order:
  "dict_eq params_ab params_ba
   \<and> make_cache_key H select_users params_ab ''sqlcache''
       = Inr (''sqlcache:'' @ H ''SELECT users.id FROM users|{'id': 1, 'active': True}'')
   \<and> make_cache_key H select_users params_ba ''sqlcache''
       = Inr (''sqlcache:'' @ H ''SELECT users.id FROM users|{'active': True, 'id': 1}'')
   \<and> ''SELECT users.id FROM users|{'id': 1, 'active': True}''
       \<noteq> ''SELECT users.id FROM users|{'active': True, 'id': 1}''"
proof -
  have "dict_eq params_ab params_ba"
    by (auto simp: dict_eq_def params_ab_def params_ba_def)
  moreover have "key_raw ''SELECT users.id FROM users'' params_ab
      = ''SELECT users.id FROM users|{'id': 1, 'active': True}''"
    by code_simp
  moreover have "key_raw ''SELECT users.id FROM users'' params_ba
      = ''SELECT users.id FROM users|{'active': True, 'id': 1}''"
    by code_simp
  ultimately show ?thesis
    by (simp add: make_cache_key_def select_users_def)
qed

end
